theory Spec2Isabelle
  imports Complex_Main
begin

section \<open>Bisection root finder: embedding of \<open>Find\<close>\<close>

text \<open>
  The generic \<open>Find[F64 ~float64, F64R ~float64]\<close> of package \<open>root\<close> is embedded.
  Both type parameters have underlying type \<open>float64\<close>, so one type \<open>'a\<close> stands for
  all floating-point values. The primitive operations the source takes from the Go
  language and from package \<open>math\<close> (\<open>+\<close>, \<open>-\<close>, \<open>/\<close>, \<open><\<close>, \<open>>\<close>, \<open>==\<close>, \<open>math.Abs\<close>,
  \<open>math.Signbit\<close>, \<open>math.IsNaN\<close>, \<open>math.IsInf\<close>) are a parameter of the model, the
  record \<open>fops\<close>: a theorem stated for every \<open>ops\<close> holds for whatever arithmetic the
  machine performs. The package variables \<open>Precision\<close> and \<open>MaxIteration\<close>, read once
  per call, are the record \<open>config\<close>.
\<close>

subsection \<open>Floating-point primitives and configuration\<close>

record 'a fops =
  fadd :: "'a \<Rightarrow> 'a \<Rightarrow> 'a"
  fsub :: "'a \<Rightarrow> 'a \<Rightarrow> 'a"
  fdiv :: "'a \<Rightarrow> 'a \<Rightarrow> 'a"
  fabs :: "'a \<Rightarrow> 'a"
  flt :: "'a \<Rightarrow> 'a \<Rightarrow> bool"
  fgt :: "'a \<Rightarrow> 'a \<Rightarrow> bool"
  feq :: "'a \<Rightarrow> 'a \<Rightarrow> bool"
  fzero :: "'a"
  ftwo :: "'a"
  signbit :: "'a \<Rightarrow> bool"
  isNaN :: "'a \<Rightarrow> bool"
  isInf :: "'a \<Rightarrow> bool"

record 'a config =
  Precision :: "'a"
  MaxIteration :: "int"

subsection \<open>Errors\<close>

datatype ErrType = MaximalIteration | InternalErr | NotValidValue | Recovery

text \<open>
  The \<open>Err\<close> field of \<open>ErrorFind\<close>: one constructor for each message the source
  formats, \<open>Evaluator\<close> for an evaluator error stored unchanged, \<open>Recovered\<close> for the
  value handed to \<open>panic\<close>.
\<close>

datatype ('a, 'e, 'p) message =
    TooManyIterations int
  | NoRoot 'a 'a 'a
  | XRootIsNaN
  | YRootIsNaN
  | XRootIsInf
  | YRootIsInf
  | Evaluator 'e
  | Recovered 'p

text \<open>
  A non-nil \<open>error\<close> returned by \<open>Find\<close> is either a value the evaluator
  produced (\<open>Native\<close>) or an \<open>ErrorFind\<close> struct.
\<close>

datatype ('a, 'e, 'p) error =
    Native 'e
  | ErrorFind ErrType "('a, 'e, 'p) message"

subsection \<open>The evaluator\<close>

text \<open>
  A call \<open>f(x)\<close> of the Go closure either returns the pair \<open>(y, err)\<close> or panics;
  the closure may carry state of its own, which is threaded through every call.
  \<open>Panics p\<close> carries the non-nil value \<open>p\<close> that \<open>recover()\<close> yields.
\<close>

datatype ('a, 'e, 'p) outcome =
    Returns 'a "'e option"
  | Panics 'p

type_synonym ('a, 'e, 'p, 's) evaluator = "'a \<Rightarrow> 's \<Rightarrow> ('a, 'e, 'p) outcome \<times> 's"

subsection \<open>Local variables and control flow\<close>

record 'a vars =
  xLeft :: "'a"
  xRigth :: "'a"
  xRoot :: "'a"
  yLeft :: "'a"
  yRoot :: "'a"
  yRigth :: "'a"

text \<open>
  How the function body ends: \<open>Done root err\<close> is a \<open>return\<close> with the named
  results as they stand, \<open>Panicked root p\<close> is a panic with value \<open>p\<close> unwinding
  while the named result \<open>root\<close> has the given value.
\<close>

datatype ('a, 'e, 'p) exit =
    Done 'a "('a, 'e, 'p) error option"
  | Panicked 'a 'p

text \<open>What one pass through the loop body does after the check of the iteration cap.\<close>

datatype ('a, 'e, 'p) pass =
    Continue "'a vars"
  | Break
  | Exit "('a, 'e, 'p) exit"

text \<open>The closure \<open>middle\<close>: \<open>xLeft + (xRigth-xLeft)/2.0\<close>.\<close>

definition middle :: "'a fops \<Rightarrow> 'a \<Rightarrow> 'a \<Rightarrow> 'a" where
  "middle ops xl xr = fadd ops xl (fdiv ops (fsub ops xr xl) (ftwo ops))"

text \<open>
  The call \<open>_, err = f(F64(root))\<close> followed by \<open>return\<close>, after \<open>root\<close> has been
  assigned (\<open>rt\<close> is the source's \<open>root\<close>).
\<close>

definition confirm ::
  "('a, 'e, 'p, 's) evaluator \<Rightarrow> 'a \<Rightarrow> 's \<Rightarrow> ('a, 'e, 'p) exit \<times> 's" where
  "confirm f rt s =
    (case f rt s of
       (Panics p, s') \<Rightarrow> (Panicked rt p, s')
     | (Returns y e, s') \<Rightarrow> (Done rt (map_option Native e), s'))"

text \<open>
  The sign comparison of the loop body. The first branch is the source's
  \<open>xRigth, yRigth = xRoot, yRigth\<close>, the second \<open>xLeft, yLeft = xRoot, yRoot\<close>;
  \<open>None\<close> is the branch that reports \<open>No root\<close>.
\<close>

definition bracket :: "'a fops \<Rightarrow> 'a vars \<Rightarrow> 'a vars option" where
  "bracket ops v =
    (if signbit ops (yLeft v) \<noteq> signbit ops (yRoot v)
     then Some (v\<lparr>xRigth := xRoot v, yRigth := yRigth v\<rparr>)
     else if signbit ops (yRoot v) \<noteq> signbit ops (yRigth v)
     then Some (v\<lparr>xLeft := xRoot v, yLeft := yRoot v\<rparr>)
     else None)"

text \<open>
  The rest of the loop body: the next middle point, its evaluation, and the checks
  of \<open>xRoot\<close> and \<open>yRoot\<close> for NaN and infinity, in the order of the source.
\<close>

definition advance ::
  "'a fops \<Rightarrow> ('a, 'e, 'p, 's) evaluator \<Rightarrow> 'a vars \<Rightarrow> 's \<Rightarrow> ('a, 'e, 'p) pass \<times> 's" where
  "advance ops f v s =
    (let v1 = v\<lparr>xRoot := middle ops (xLeft v) (xRigth v)\<rparr> in
     case f (xRoot v1) s of
       (Panics p, s') \<Rightarrow> (Exit (Panicked (fzero ops) p), s')
     | (Returns y errRoot, s') \<Rightarrow>
         (let v2 = v1\<lparr>yRoot := y\<rparr> in
          case errRoot of
            Some e \<Rightarrow> (Exit (Done (fzero ops) (Some (ErrorFind InternalErr (Evaluator e)))), s')
          | None \<Rightarrow>
              if isNaN ops (xRoot v2)
              then (Exit (Done (fzero ops) (Some (ErrorFind NotValidValue XRootIsNaN))), s')
              else if isNaN ops (yRoot v2)
              then (Exit (Done (fzero ops) (Some (ErrorFind NotValidValue YRootIsNaN))), s')
              else if isInf ops (xRoot v2)
              then (Exit (Done (fzero ops) (Some (ErrorFind NotValidValue XRootIsInf))), s')
              else if isInf ops (yRoot v2)
              then (Exit (Done (fzero ops) (Some (ErrorFind NotValidValue YRootIsInf))), s')
              else (Continue v2, s')))"

text \<open>
  The convergence test at the head of the loop body, with its two branches on
  \<open>xLeft == 0\<close> as the source writes them.
\<close>

definition converged :: "'a config \<Rightarrow> 'a fops \<Rightarrow> 'a vars \<Rightarrow> bool" where
  "converged cfg ops v =
    (if feq ops (xLeft v) (fzero ops)
     then flt ops (fabs ops (yRoot v)) (Precision cfg)
          \<and> flt ops (fabs ops (fsub ops (xRigth v) (xLeft v))) (Precision cfg)
     else flt ops (fabs ops (yRoot v)) (Precision cfg)
          \<and> flt ops (fabs ops (fdiv ops (fsub ops (xRigth v) (xLeft v)) (xLeft v)))
                (Precision cfg))"

text \<open>The loop body after the check of \<open>iter >= maxIter\<close>.\<close>

definition body ::
  "'a config \<Rightarrow> 'a fops \<Rightarrow> ('a, 'e, 'p, 's) evaluator \<Rightarrow> 'a vars \<Rightarrow> 's
    \<Rightarrow> ('a, 'e, 'p) pass \<times> 's" where
  "body cfg ops f v s =
    (if converged cfg ops v
     then (Break, s)
     else case bracket ops v of
            None \<Rightarrow>
              (Exit (Done (fzero ops)
                 (Some (ErrorFind InternalErr (NoRoot (yLeft v) (yRoot v) (yRigth v))))), s)
          | Some v' \<Rightarrow> advance ops f v' s)"

text \<open>
  The loop \<open>for iter := 0; ; iter++\<close>, entered with the given value of \<open>iter\<close>.
  After \<open>break\<close> the function assigns \<open>root = xRoot\<close> and calls \<open>f\<close> once more.
\<close>

function iterate ::
  "'a config \<Rightarrow> 'a fops \<Rightarrow> ('a, 'e, 'p, 's) evaluator \<Rightarrow> int \<Rightarrow> 'a vars \<Rightarrow> 's
    \<Rightarrow> ('a, 'e, 'p) exit \<times> 's" where
  "iterate cfg ops f iter v s =
    (if iter \<ge> MaxIteration cfg
     then (Done (fzero ops) (Some (ErrorFind MaximalIteration (TooManyIterations iter))), s)
     else case body cfg ops f v s of
            (Break, s') \<Rightarrow> confirm f (xRoot v) s'
          | (Exit x, s') \<Rightarrow> (x, s')
          | (Continue v', s') \<Rightarrow> iterate cfg ops f (iter + 1) v' s')"
  by pat_completeness auto
termination
  by (relation "measure (\<lambda>(cfg, ops, f, iter, v, s). nat (MaxIteration cfg - iter))") auto

declare iterate.simps [simp del]

text \<open>The first non-nil error of \<open>[]error{errLeft, errRigth, errRoot}\<close>.\<close>

fun first_error :: "'e option list \<Rightarrow> 'e option" where
  "first_error [] = None"
| "first_error (None # es) = first_error es"
| "first_error (Some e # es) = Some e"

text \<open>
  The part of \<open>Find\<close> before the loop: the swap of the borders, the three
  initial evaluations in the order of the \<open>var\<close> block (left, middle, right), the
  check of their errors and the two early solutions. The result is \<open>Inl\<close> when
  the function ends here and \<open>Inr\<close> with the variables when the loop is entered.
\<close>

definition prologue ::
  "'a config \<Rightarrow> 'a fops \<Rightarrow> ('a, 'e, 'p, 's) evaluator \<Rightarrow> 'a \<Rightarrow> 'a \<Rightarrow> 's
    \<Rightarrow> (('a, 'e, 'p) exit + 'a vars) \<times> 's" where
  "prologue cfg ops f minX maxX s =
    (let (minX, maxX) = (if fgt ops minX maxX then (maxX, minX) else (minX, maxX));
         xl = minX;
         xr = maxX;
         xm = middle ops xl xr
     in case f xl s of
          (Panics p, s1) \<Rightarrow> (Inl (Panicked (fzero ops) p), s1)
        | (Returns yl errLeft, s1) \<Rightarrow>
        (case f xm s1 of
          (Panics p, s2) \<Rightarrow> (Inl (Panicked (fzero ops) p), s2)
        | (Returns ym errRoot, s2) \<Rightarrow>
        (case f xr s2 of
          (Panics p, s3) \<Rightarrow> (Inl (Panicked (fzero ops) p), s3)
        | (Returns yr errRigth, s3) \<Rightarrow>
        (case first_error [errLeft, errRigth, errRoot] of
          Some e \<Rightarrow> (Inl (Done (fzero ops) (Some (Native e))), s3)
        | None \<Rightarrow>
            if flt ops (fabs ops yl) (Precision cfg) then apfst Inl (confirm f xl s3)
            else if flt ops (fabs ops yr) (Precision cfg) then apfst Inl (confirm f xr s3)
            else (Inr \<lparr>xLeft = xl, xRigth = xr, xRoot = xm,
                       yLeft = yl, yRoot = ym, yRigth = yr\<rparr>, s3)))))"

text \<open>The body of \<open>Find\<close> without its deferred function.\<close>

definition Find_body ::
  "'a config \<Rightarrow> 'a fops \<Rightarrow> ('a, 'e, 'p, 's) evaluator \<Rightarrow> 'a \<Rightarrow> 'a \<Rightarrow> 's
    \<Rightarrow> ('a, 'e, 'p) exit \<times> 's" where
  "Find_body cfg ops f minX maxX s =
    (case prologue cfg ops f minX maxX s of
       (Inl x, s') \<Rightarrow> (x, s')
     | (Inr v, s') \<Rightarrow> iterate cfg ops f 0 v s')"

text \<open>
  \<open>Find\<close>: the body under the deferred \<open>recover()\<close>, which replaces \<open>err\<close> by an
  \<open>ErrorFind\<close> of type \<open>Recovery\<close> and leaves \<open>root\<close> as it is.
\<close>

definition Find ::
  "'a config \<Rightarrow> 'a fops \<Rightarrow> ('a, 'e, 'p, 's) evaluator \<Rightarrow> 'a \<Rightarrow> 'a \<Rightarrow> 's
    \<Rightarrow> ('a \<times> ('a, 'e, 'p) error option) \<times> 's" where
  "Find cfg ops f minX maxX s =
    (case Find_body cfg ops f minX maxX s of
       (Done rt err, s') \<Rightarrow> ((rt, err), s')
     | (Panicked rt p, s') \<Rightarrow> ((rt, Some (ErrorFind Recovery (Recovered p))), s'))"

subsection \<open>An arithmetic with the special values of \<open>float64\<close>\<close>

text \<open>
  A concrete arithmetic on which the model runs: the finite values are real numbers
  with exact operations, and NaN and the two infinities follow the rules of IEEE 754
  (\<open>Inf - Inf\<close>, \<open>0/0\<close> and \<open>Inf/Inf\<close> are NaN, every comparison with NaN is
  false, \<open>x > y\<close> is \<open>y < x\<close>). Rounding, overflow of finite operands to infinity
  and the sign of zero are not represented; the sign bit of NaN is taken to be clear.
\<close>

datatype f64 = NaN | PInf | NInf | Fin real

fun f64_neg :: "f64 \<Rightarrow> f64" where
  "f64_neg NaN = NaN"
| "f64_neg PInf = NInf"
| "f64_neg NInf = PInf"
| "f64_neg (Fin a) = Fin (- a)"

fun f64_add :: "f64 \<Rightarrow> f64 \<Rightarrow> f64" where
  "f64_add (Fin a) (Fin b) = Fin (a + b)"
| "f64_add (Fin a) PInf = PInf"
| "f64_add (Fin a) NInf = NInf"
| "f64_add PInf (Fin b) = PInf"
| "f64_add PInf PInf = PInf"
| "f64_add NInf (Fin b) = NInf"
| "f64_add NInf NInf = NInf"
| "f64_add PInf NInf = NaN"
| "f64_add NInf PInf = NaN"
| "f64_add NaN y = NaN"
| "f64_add (Fin a) NaN = NaN"
| "f64_add PInf NaN = NaN"
| "f64_add NInf NaN = NaN"

definition f64_sub :: "f64 \<Rightarrow> f64 \<Rightarrow> f64" where
  "f64_sub x y = f64_add x (f64_neg y)"

fun f64_mul :: "f64 \<Rightarrow> f64 \<Rightarrow> f64" where
  "f64_mul (Fin a) (Fin b) = Fin (a * b)"
| "f64_mul (Fin a) PInf = (if a = 0 then NaN else if 0 < a then PInf else NInf)"
| "f64_mul (Fin a) NInf = (if a = 0 then NaN else if 0 < a then NInf else PInf)"
| "f64_mul PInf (Fin b) = (if b = 0 then NaN else if 0 < b then PInf else NInf)"
| "f64_mul NInf (Fin b) = (if b = 0 then NaN else if 0 < b then NInf else PInf)"
| "f64_mul PInf PInf = PInf"
| "f64_mul NInf NInf = PInf"
| "f64_mul PInf NInf = NInf"
| "f64_mul NInf PInf = NInf"
| "f64_mul NaN y = NaN"
| "f64_mul (Fin a) NaN = NaN"
| "f64_mul PInf NaN = NaN"
| "f64_mul NInf NaN = NaN"

fun f64_div :: "f64 \<Rightarrow> f64 \<Rightarrow> f64" where
  "f64_div (Fin a) (Fin b) =
     (if b = 0 then (if a = 0 then NaN else if 0 < a then PInf else NInf) else Fin (a / b))"
| "f64_div (Fin a) PInf = Fin 0"
| "f64_div (Fin a) NInf = Fin 0"
| "f64_div PInf (Fin b) = (if b < 0 then NInf else PInf)"
| "f64_div NInf (Fin b) = (if b < 0 then PInf else NInf)"
| "f64_div PInf PInf = NaN"
| "f64_div PInf NInf = NaN"
| "f64_div NInf PInf = NaN"
| "f64_div NInf NInf = NaN"
| "f64_div NaN y = NaN"
| "f64_div (Fin a) NaN = NaN"
| "f64_div PInf NaN = NaN"
| "f64_div NInf NaN = NaN"

fun f64_abs :: "f64 \<Rightarrow> f64" where
  "f64_abs NaN = NaN"
| "f64_abs PInf = PInf"
| "f64_abs NInf = PInf"
| "f64_abs (Fin a) = Fin \<bar>a\<bar>"

fun f64_lt :: "f64 \<Rightarrow> f64 \<Rightarrow> bool" where
  "f64_lt (Fin a) (Fin b) = (a < b)"
| "f64_lt (Fin a) PInf = True"
| "f64_lt NInf (Fin b) = True"
| "f64_lt NInf PInf = True"
| "f64_lt x y = False"

fun f64_eq :: "f64 \<Rightarrow> f64 \<Rightarrow> bool" where
  "f64_eq (Fin a) (Fin b) = (a = b)"
| "f64_eq PInf PInf = True"
| "f64_eq NInf NInf = True"
| "f64_eq x y = False"

fun f64_signbit :: "f64 \<Rightarrow> bool" where
  "f64_signbit (Fin a) = (a < 0)"
| "f64_signbit NInf = True"
| "f64_signbit x = False"

fun f64_isNaN :: "f64 \<Rightarrow> bool" where
  "f64_isNaN NaN = True"
| "f64_isNaN x = False"

fun f64_isInf :: "f64 \<Rightarrow> bool" where
  "f64_isInf PInf = True"
| "f64_isInf NInf = True"
| "f64_isInf x = False"

definition f64_ops :: "f64 fops" where
  "f64_ops =
    \<lparr>fadd = f64_add, fsub = f64_sub, fdiv = f64_div, fabs = f64_abs,
     flt = f64_lt, fgt = (\<lambda>x y. f64_lt y x), feq = f64_eq, fzero = Fin 0, ftwo = Fin 2,
     signbit = f64_signbit, isNaN = f64_isNaN, isInf = f64_isInf\<rparr>"

text \<open>The initial values of the package variables: \<open>1e-6\<close> and \<open>500\<close>.\<close>

definition default_config :: "f64 config" where
  "default_config = \<lparr>Precision = Fin (1 / 1000000), MaxIteration = 500\<rparr>"

subsection \<open>Evaluators and notions used in the statements\<close>

text \<open>An evaluator without state, errors or panics, computing a function of \<open>x\<close>.\<close>

definition plain :: "('a \<Rightarrow> 'a) \<Rightarrow> ('a, 'e, 'p, 's) evaluator" where
  "plain g x s = (Returns (g x) None, s)"

text \<open>
  An evaluator without state: its outcome, which may be an error or a panic, depends
  on \<open>x\<close> alone.
\<close>

definition stateless :: "('a \<Rightarrow> ('a, 'e, 'p) outcome) \<Rightarrow> ('a, 'e, 'p, 's) evaluator" where
  "stateless g x s = (g x, s)"

text \<open>An evaluator that counts its own calls, as the closure of the test suite does.\<close>

definition counted ::
  "('a, 'e, 'p, 's) evaluator \<Rightarrow> ('a, 'e, 'p, 's \<times> nat) evaluator" where
  "counted f x = (\<lambda>(s, n). case f x s of (r, s') \<Rightarrow> (r, (s', Suc n)))"


text \<open>
  \<open>passes cfg ops f n v s\<close>: the variables and the evaluator state after \<open>n\<close>
  consecutive passes through the loop body, none of which leaves the loop.
\<close>

fun passes ::
  "'a config \<Rightarrow> 'a fops \<Rightarrow> ('a, 'e, 'p, 's) evaluator \<Rightarrow> nat \<Rightarrow> 'a vars \<Rightarrow> 's
    \<Rightarrow> ('a vars \<times> 's) option" where
  "passes cfg ops f 0 v s = Some (v, s)"
| "passes cfg ops f (Suc n) v s =
    (case body cfg ops f v s of
       (Continue v', s') \<Rightarrow> passes cfg ops f n v' s'
     | (Break, s') \<Rightarrow> None
     | (Exit x, s') \<Rightarrow> None)"

text \<open>
  \<open>at_iteration cfg ops f minX maxX s n\<close>: the variables and the evaluator state
  with which the call \<open>Find(f, minX, maxX)\<close> arrives at the head of the loop with
  \<open>iter = n\<close>, \<open>None\<close> if it has ended before.
\<close>

definition at_iteration ::
  "'a config \<Rightarrow> 'a fops \<Rightarrow> ('a, 'e, 'p, 's) evaluator \<Rightarrow> 'a \<Rightarrow> 'a \<Rightarrow> 's \<Rightarrow> nat
    \<Rightarrow> ('a vars \<times> 's) option" where
  "at_iteration cfg ops f minX maxX s n =
    (case prologue cfg ops f minX maxX s of
       (Inl x, s') \<Rightarrow> None
     | (Inr v, s') \<Rightarrow> passes cfg ops f n v s')"

text \<open>
  The width of the bracket in the words of the specification: the absolute width
  \<open>|right - left|\<close> when the left endpoint equals zero, the relative width
  \<open>|(right - left)/left|\<close> otherwise.
\<close>

definition width_measure :: "'a fops \<Rightarrow> 'a vars \<Rightarrow> 'a" where
  "width_measure ops v =
    (if feq ops (xLeft v) (fzero ops)
     then fabs ops (fsub ops (xRigth v) (xLeft v))
     else fabs ops (fdiv ops (fsub ops (xRigth v) (xLeft v)) (xLeft v)))"

text \<open>The evaluators of the examples: \<open>2x + 5\<close> and \<open>(x - 3/8)(x - 3/4)\<close>.\<close>

definition two_x_plus_five :: "f64 \<Rightarrow> f64" where
  "two_x_plus_five x = f64_add (f64_mul (Fin 2) x) (Fin 5)"

definition quadratic :: "f64 \<Rightarrow> f64" where
  "quadratic x = f64_mul (f64_sub x (Fin (3 / 8))) (f64_sub x (Fin (3 / 4)))"





section \<open>Properties\<close>

subsection \<open>Unfolding the loop\<close>

lemma iterate_cap:
  "MaxIteration cfg \<le> iter \<Longrightarrow>
   iterate cfg ops f iter v s
     = (Done (fzero ops) (Some (ErrorFind MaximalIteration (TooManyIterations iter))), s)"
  by (subst iterate.simps) simp

lemma iterate_pass:
  "iter < MaxIteration cfg \<Longrightarrow>
   iterate cfg ops f iter v s
     = (case body cfg ops f v s of
          (Break, s') \<Rightarrow> confirm f (xRoot v) s'
        | (Exit x, s') \<Rightarrow> (x, s')
        | (Continue v', s') \<Rightarrow> iterate cfg ops f (iter + 1) v' s')"
  by (subst iterate.simps) simp

lemma iterate_passes:
  "passes cfg ops f n v s = Some (v', s') \<Longrightarrow> iter + int n \<le> MaxIteration cfg \<Longrightarrow>
   iterate cfg ops f iter v s = iterate cfg ops f (iter + int n) v' s'"
proof (induction n arbitrary: iter v s)
  case 0
  then show ?case by simp
next
  case (Suc n)
  from Suc.prems(1) obtain v1 s1 where b: "body cfg ops f v s = (Continue v1, s1)"
    and p: "passes cfg ops f n v1 s1 = Some (v', s')"
    by (auto split: prod.splits pass.splits)
  from Suc.prems(2) have lt: "iter < MaxIteration cfg"
    and nx: "(iter + 1) + int n \<le> MaxIteration cfg"
    by simp_all
  have "iterate cfg ops f iter v s = iterate cfg ops f (iter + 1) v1 s1"
    using lt b by (simp add: iterate_pass)
  also have "\<dots> = iterate cfg ops f ((iter + 1) + int n) v' s'"
    by (rule Suc.IH [OF p nx])
  finally show ?case by (simp add: add.commute add.left_commute)
qed

lemma Find_at_iteration:
  assumes "at_iteration cfg ops f minX maxX s0 n = Some (v, s)"
    and "int n \<le> MaxIteration cfg"
  shows "Find cfg ops f minX maxX s0
    = (case iterate cfg ops f (int n) v s of
         (Done rt err, s') \<Rightarrow> ((rt, err), s')
       | (Panicked rt p, s') \<Rightarrow> ((rt, Some (ErrorFind Recovery (Recovered p))), s'))"
proof -
  from assms(1) obtain v0 s1 where pr: "prologue cfg ops f minX maxX s0 = (Inr v0, s1)"
    and ps: "passes cfg ops f n v0 s1 = Some (v, s)"
    by (auto simp add: at_iteration_def split: prod.splits sum.splits)
  have "iterate cfg ops f 0 v0 s1 = iterate cfg ops f (0 + int n) v s"
    using assms(2) by (intro iterate_passes [OF ps]) simp
  then show ?thesis
    by (simp add: Find_def Find_body_def pr)
qed

lemma advance_not_Break: "fst (advance ops f v s) \<noteq> Break"
  by (simp add: advance_def Let_def split: prod.splits outcome.splits option.splits)

lemma body_Break:
  assumes "body cfg ops f v s = (Break, s')"
  shows "converged cfg ops v \<and> s' = s"
proof (cases "converged cfg ops v")
  case True
  with assms show ?thesis by (simp add: body_def)
next
  case False
  have "fst (body cfg ops f v s) \<noteq> Break"
    using False by (simp add: body_def advance_not_Break split: option.splits)
  with assms show ?thesis by simp
qed


lemma first_error_None:
  "(first_error [e1, e2, e3] = None) = (e1 = None \<and> e2 = None \<and> e3 = None)"
  by (cases e1; cases e2; cases e3) simp_all

text \<open>The facts that run the model on the concrete arithmetic.\<close>

lemmas f64_run = Find_def Find_body_def prologue_def at_iteration_def iterate_pass
  iterate_cap body_def converged_def bracket_def advance_def confirm_def middle_def
  f64_ops_def f64_sub_def default_config_def

subsection \<open>The convergence test\<close>

text \<open>
  Claim C9. A pass through the loop body leaves the loop by \<open>break\<close> exactly when
  \<open>|yRoot| < Precision\<close> and the width of the bracket is below \<open>Precision\<close>, where
  the width is \<open>|xRigth - xLeft|\<close> if \<open>xLeft == 0\<close> and \<open>|(xRigth - xLeft)/xLeft|\<close>
  otherwise; nothing else enters the test.
\<close>

theorem convergence_test_exact:
  "(fst (body cfg ops f v s) = Break) =
     (flt ops (fabs ops (yRoot v)) (Precision cfg)
      \<and> flt ops (width_measure ops v) (Precision cfg))"
proof (cases "converged cfg ops v")
  case True
  then show ?thesis
    by (simp add: body_def converged_def width_measure_def split: if_splits)
next
  case False
  then have "fst (body cfg ops f v s) \<noteq> Break"
    by (simp add: body_def advance_not_Break split: option.splits)
  with False show ?thesis
    by (simp add: converged_def width_measure_def split: if_splits)
qed

text \<open>
  The test at work on the bracket from \<open>1\<close> to \<open>1 + 1/2097152\<close> with
  \<open>yRoot = 0\<close>: the relative width is below \<open>1e-6\<close> and the pass breaks.
\<close>

theorem convergence_test_exact_witness:
  "fst (body default_config f64_ops (plain two_x_plus_five :: (f64, unit, unit, unit) evaluator)
         \<lparr>xLeft = Fin 1, xRigth = Fin (2097153 / 2097152), xRoot = Fin (4194305 / 4194304),
          yLeft = Fin (- 1), yRoot = Fin 0, yRigth = Fin 1\<rparr> ()) = Break
   \<and> flt f64_ops (fabs f64_ops (Fin 0)) (Precision default_config)
   \<and> flt f64_ops
        (width_measure f64_ops
          \<lparr>xLeft = Fin 1, xRigth = Fin (2097153 / 2097152), xRoot = Fin (4194305 / 4194304),
           yLeft = Fin (- 1), yRoot = Fin 0, yRigth = Fin 1\<rparr>)
        (Precision default_config)"
  using convergence_test_exact [of default_config f64_ops
      "plain two_x_plus_five :: (f64, unit, unit, unit) evaluator"
      "\<lparr>xLeft = Fin 1, xRigth = Fin (2097153 / 2097152), xRoot = Fin (4194305 / 4194304),
        yLeft = Fin (- 1), yRoot = Fin 0, yRigth = Fin 1\<rparr>" "()"]
  by (simp add: width_measure_def f64_ops_def f64_sub_def default_config_def)

subsection \<open>Errors raised inside the loop\<close>

lemma two_x_plus_five_run:
  "Find default_config f64_ops (plain two_x_plus_five) (Fin 0) (Fin 1) s
     = ((Fin 0, Some (ErrorFind InternalErr (NoRoot (Fin 5) (Fin 6) (Fin 7)))), s)"
  by (simp add: f64_run plain_def two_x_plus_five_def)

text \<open>
  Claim C6. When a call of \<open>Find\<close> is at the head of the loop below the iteration
  cap, the convergence test fails and the sign bits of \<open>yLeft\<close>, \<open>yRoot\<close> and
  \<open>yRigth\<close> all agree, \<open>Find\<close> returns at once with an error of type
  \<open>InternalErr\<close> (\<open>No root\<close>). In particular \<open>Find\<close> of \<open>2x + 5\<close> over \<open>[0, 1]\<close>
  returns that error.
\<close>

theorem no_sign_change_aborts:
  "(at_iteration cfg ops f minX maxX s0 n = Some (v, s) \<and> int n < MaxIteration cfg
      \<and> \<not> converged cfg ops v
      \<and> signbit ops (yLeft v) = signbit ops (yRoot v)
      \<and> signbit ops (yRoot v) = signbit ops (yRigth v)
    \<longrightarrow> Find cfg ops f minX maxX s0
        = ((fzero ops,
            Some (ErrorFind InternalErr (NoRoot (yLeft v) (yRoot v) (yRigth v)))), s))
   \<and> Find default_config f64_ops (plain two_x_plus_five) (Fin 0) (Fin 1) s'
       = ((Fin 0, Some (ErrorFind InternalErr (NoRoot (Fin 5) (Fin 6) (Fin 7)))), s')"
proof (intro conjI impI)
  assume h: "at_iteration cfg ops f minX maxX s0 n = Some (v, s) \<and> int n < MaxIteration cfg
      \<and> \<not> converged cfg ops v
      \<and> signbit ops (yLeft v) = signbit ops (yRoot v)
      \<and> signbit ops (yRoot v) = signbit ops (yRigth v)"
  then have "iterate cfg ops f (int n) v s
     = (Done (fzero ops)
          (Some (ErrorFind InternalErr (NoRoot (yLeft v) (yRoot v) (yRigth v)))), s)"
    by (simp add: iterate_pass body_def bracket_def)
  moreover from h have "at_iteration cfg ops f minX maxX s0 n = Some (v, s)"
    and "int n \<le> MaxIteration cfg"
    by simp_all
  ultimately show "Find cfg ops f minX maxX s0
        = ((fzero ops,
            Some (ErrorFind InternalErr (NoRoot (yLeft v) (yRoot v) (yRigth v)))), s)"
    by (simp add: Find_at_iteration [of cfg ops f minX maxX s0 n v s])
next
  show "Find default_config f64_ops (plain two_x_plus_five) (Fin 0) (Fin 1) s'
       = ((Fin 0, Some (ErrorFind InternalErr (NoRoot (Fin 5) (Fin 6) (Fin 7)))), s')"
    by (rule two_x_plus_five_run)
qed

text \<open>The hypotheses hold for \<open>2x + 5\<close> over \<open>[0, 1]\<close> at the first pass.\<close>

theorem no_sign_change_aborts_witness:
  "at_iteration default_config f64_ops
       (plain two_x_plus_five :: (f64, unit, unit, unit) evaluator) (Fin 0) (Fin 1) () 0
     = Some (\<lparr>xLeft = Fin 0, xRigth = Fin 1, xRoot = Fin (1 / 2),
              yLeft = Fin 5, yRoot = Fin 6, yRigth = Fin 7\<rparr>, ())
   \<and> int 0 < MaxIteration default_config
   \<and> \<not> converged default_config f64_ops
         \<lparr>xLeft = Fin 0, xRigth = Fin 1, xRoot = Fin (1 / 2),
          yLeft = Fin 5, yRoot = Fin 6, yRigth = Fin 7\<rparr>
   \<and> signbit f64_ops (Fin 5) = signbit f64_ops (Fin 6)
   \<and> signbit f64_ops (Fin 6) = signbit f64_ops (Fin 7)
   \<and> Find default_config f64_ops
       (plain two_x_plus_five :: (f64, unit, unit, unit) evaluator) (Fin 0) (Fin 1) ()
     = ((fzero f64_ops, Some (ErrorFind InternalErr (NoRoot (Fin 5) (Fin 6) (Fin 7)))), ())"
proof -
  let ?f = "plain two_x_plus_five :: (f64, unit, unit, unit) evaluator"
  let ?v = "\<lparr>xLeft = Fin 0, xRigth = Fin 1, xRoot = Fin (1 / 2),
             yLeft = Fin 5, yRoot = Fin 6, yRigth = Fin 7\<rparr>"
  have h: "at_iteration default_config f64_ops ?f (Fin 0) (Fin 1) () 0 = Some (?v, ())
      \<and> int 0 < MaxIteration default_config
      \<and> \<not> converged default_config f64_ops ?v
      \<and> signbit f64_ops (yLeft ?v) = signbit f64_ops (yRoot ?v)
      \<and> signbit f64_ops (yRoot ?v) = signbit f64_ops (yRigth ?v)"
    by (simp add: f64_run plain_def two_x_plus_five_def)
  have "Find default_config f64_ops ?f (Fin 0) (Fin 1) ()
      = ((fzero f64_ops,
          Some (ErrorFind InternalErr (NoRoot (yLeft ?v) (yRoot ?v) (yRigth ?v)))), ())"
    by (rule no_sign_change_aborts [THEN conjunct1, rule_format, OF h])
  with h show ?thesis by simp
qed

text \<open>
  Claim C7. When a call of \<open>Find\<close> arrives at the head of the loop with \<open>iter\<close>
  equal to \<open>MaxIteration\<close>, no earlier pass having converged or failed, it returns
  an error of type \<open>MaximalIteration\<close>, whatever the convergence test would say of
  the variables (the cap is checked first).
\<close>

theorem iteration_cap:
  assumes "at_iteration cfg ops f minX maxX s0 n = Some (v, s)"
    and "int n = MaxIteration cfg"
  shows "Find cfg ops f minX maxX s0
     = ((fzero ops,
         Some (ErrorFind MaximalIteration (TooManyIterations (MaxIteration cfg)))), s)"
  using assms(2) by (simp add: Find_at_iteration [OF assms(1)] iterate_cap)

text \<open>
  With a cap of two iterations, the evaluator that is \<open>-1\<close> below \<open>1/3\<close> and \<open>1\<close>
  from there on keeps a sign change and never converges over \<open>[0, 1]\<close>.
\<close>

theorem iteration_cap_witness:
  "at_iteration (default_config\<lparr>MaxIteration := 2\<rparr>) f64_ops
        (plain (\<lambda>x. if f64_lt x (Fin (1 / 3)) then Fin (- 1) else Fin 1)
           :: (f64, unit, unit, unit) evaluator)
        (Fin 0) (Fin 1) () 2
      = Some (\<lparr>xLeft = Fin (1 / 4), xRigth = Fin (1 / 2), xRoot = Fin (3 / 8),
               yLeft = Fin (- 1), yRoot = Fin 1, yRigth = Fin 1\<rparr>, ())
   \<and> int 2 = MaxIteration (default_config\<lparr>MaxIteration := 2\<rparr>)
   \<and> Find (default_config\<lparr>MaxIteration := 2\<rparr>) f64_ops
        (plain (\<lambda>x. if f64_lt x (Fin (1 / 3)) then Fin (- 1) else Fin 1)
           :: (f64, unit, unit, unit) evaluator)
        (Fin 0) (Fin 1) ()
      = ((Fin 0, Some (ErrorFind MaximalIteration (TooManyIterations 2))), ())"
proof -
  let ?cfg = "default_config\<lparr>MaxIteration := 2\<rparr>"
  let ?f = "plain (\<lambda>x. if f64_lt x (Fin (1 / 3)) then Fin (- 1) else Fin 1)
              :: (f64, unit, unit, unit) evaluator"
  let ?v = "\<lparr>xLeft = Fin (1 / 4), xRigth = Fin (1 / 2), xRoot = Fin (3 / 8),
             yLeft = Fin (- 1), yRoot = Fin 1, yRigth = Fin 1\<rparr>"
  have h1: "at_iteration ?cfg f64_ops ?f (Fin 0) (Fin 1) () 2 = Some (?v, ())"
    by (simp add: f64_run plain_def numeral_2_eq_2)
  have h2: "int 2 = MaxIteration ?cfg"
    by (simp add: default_config_def)
  have "Find ?cfg f64_ops ?f (Fin 0) (Fin 1) ()
      = ((fzero f64_ops,
          Some (ErrorFind MaximalIteration (TooManyIterations (MaxIteration ?cfg)))), ())"
    by (rule iteration_cap [OF h1 h2])
  then have "Find ?cfg f64_ops ?f (Fin 0) (Fin 1) ()
      = ((Fin 0, Some (ErrorFind MaximalIteration (TooManyIterations 2))), ())"
    by (simp add: f64_ops_def)
  with h1 h2 show ?thesis by blast
qed

text \<open>
  Claim C8. Inside the loop, once the new middle point \<open>xm\<close> has been computed and
  \<open>f\<close> has returned \<open>y\<close> there without error, \<open>Find\<close> returns an error of
  type \<open>NotValidValue\<close> if \<open>xm\<close> or \<open>y\<close> is NaN or infinite, in the evaluator state
  of that very call: no further pass and no further evaluation takes place.
\<close>

theorem nan_inf_guard:
  assumes "at_iteration cfg ops f minX maxX s0 n = Some (v, s)"
    and "int n < MaxIteration cfg"
    and "\<not> converged cfg ops v"
    and "bracket ops v = Some v'"
    and "xm = middle ops (xLeft v') (xRigth v')"
    and "f xm s = (Returns y None, s')"
    and "isNaN ops xm \<or> isNaN ops y \<or> isInf ops xm \<or> isInf ops y"
  shows "\<exists>m. Find cfg ops f minX maxX s0
            = ((fzero ops, Some (ErrorFind NotValidValue m)), s')"
proof -
  have "\<exists>m. iterate cfg ops f (int n) v s
            = (Done (fzero ops) (Some (ErrorFind NotValidValue m)), s')"
    using assms(2-7) by (auto simp add: iterate_pass body_def advance_def Let_def)
  then show ?thesis
    using assms(2) by (auto simp add: Find_at_iteration [OF assms(1)])
qed

text \<open>
  The evaluator \<open>1/(x - 1/4)\<close> over \<open>[0, 1]\<close>: the second middle point is \<open>1/4\<close>,
  where the value is infinite.
\<close>

theorem nan_inf_guard_witness:
  "at_iteration default_config f64_ops
       (plain (\<lambda>x. f64_div (Fin 1) (f64_sub x (Fin (1 / 4))))
          :: (f64, unit, unit, unit) evaluator) (Fin 0) (Fin 1) () 0
     = Some (\<lparr>xLeft = Fin 0, xRigth = Fin 1, xRoot = Fin (1 / 2),
              yLeft = Fin (- 4), yRoot = Fin 4, yRigth = Fin (4 / 3)\<rparr>, ())
   \<and> int 0 < MaxIteration default_config
   \<and> \<not> converged default_config f64_ops
         \<lparr>xLeft = Fin 0, xRigth = Fin 1, xRoot = Fin (1 / 2),
          yLeft = Fin (- 4), yRoot = Fin 4, yRigth = Fin (4 / 3)\<rparr>
   \<and> bracket f64_ops
         \<lparr>xLeft = Fin 0, xRigth = Fin 1, xRoot = Fin (1 / 2),
          yLeft = Fin (- 4), yRoot = Fin 4, yRigth = Fin (4 / 3)\<rparr>
       = Some \<lparr>xLeft = Fin 0, xRigth = Fin (1 / 2), xRoot = Fin (1 / 2),
               yLeft = Fin (- 4), yRoot = Fin 4, yRigth = Fin (4 / 3)\<rparr>
   \<and> Fin (1 / 4) = middle f64_ops (Fin 0) (Fin (1 / 2))
   \<and> plain (\<lambda>x. f64_div (Fin 1) (f64_sub x (Fin (1 / 4)))) (Fin (1 / 4)) ()
       = (Returns PInf (None :: unit option) :: (f64, unit, unit) outcome, ())
   \<and> isInf f64_ops PInf
   \<and> (\<exists>m. Find default_config f64_ops
         (plain (\<lambda>x. f64_div (Fin 1) (f64_sub x (Fin (1 / 4))))
            :: (f64, unit, unit, unit) evaluator) (Fin 0) (Fin 1) ()
       = ((fzero f64_ops, Some (ErrorFind NotValidValue m)), ()))"
proof -
  let ?f = "plain (\<lambda>x. f64_div (Fin 1) (f64_sub x (Fin (1 / 4))))
              :: (f64, unit, unit, unit) evaluator"
  let ?v = "\<lparr>xLeft = Fin 0, xRigth = Fin 1, xRoot = Fin (1 / 2),
             yLeft = Fin (- 4), yRoot = Fin 4, yRigth = Fin (4 / 3)\<rparr>"
  let ?v' = "\<lparr>xLeft = Fin 0, xRigth = Fin (1 / 2), xRoot = Fin (1 / 2),
              yLeft = Fin (- 4), yRoot = Fin 4, yRigth = Fin (4 / 3)\<rparr>"
  have h1: "at_iteration default_config f64_ops ?f (Fin 0) (Fin 1) () 0 = Some (?v, ())"
    by (simp add: f64_run plain_def)
  have h2: "int 0 < MaxIteration default_config"
    by (simp add: default_config_def)
  have h3: "\<not> converged default_config f64_ops ?v"
    by (simp add: f64_run)
  have h4: "bracket f64_ops ?v = Some ?v'"
    by (simp add: f64_run)
  have h5: "Fin (1 / 4) = middle f64_ops (xLeft ?v') (xRigth ?v')"
    by (simp add: f64_run)
  have h6: "?f (Fin (1 / 4)) () = (Returns PInf None, ())"
    by (simp add: plain_def f64_sub_def)
  have h7: "isNaN f64_ops (Fin (1 / 4)) \<or> isNaN f64_ops PInf
      \<or> isInf f64_ops (Fin (1 / 4)) \<or> isInf f64_ops PInf"
    by (simp add: f64_ops_def)
  have "\<exists>m. Find default_config f64_ops ?f (Fin 0) (Fin 1) ()
      = ((fzero f64_ops, Some (ErrorFind NotValidValue m)), ())"
    by (rule nan_inf_guard [OF h1 h2 h3 h4 h5 h6 h7])
  moreover have "isInf f64_ops PInf"
    by (simp add: f64_ops_def)
  moreover from h5 have "Fin (1 / 4) = middle f64_ops (Fin 0) (Fin (1 / 2))"
    by simp
  ultimately show ?thesis
    using h1 h2 h3 h4 h6 by blast
qed



subsection \<open>Evaluators that observe their own calls\<close>

text \<open>
  An evaluator \<open>f'\<close> that keeps more state than \<open>f\<close> but answers as \<open>f\<close> does (the
  projection \<open>\<pi>\<close> forgets the additional state) makes \<open>Find\<close> run as with \<open>f\<close>.
\<close>

lemma confirm_observed:
  assumes "\<And>x t. f x (\<pi> t) = apsnd \<pi> (f' x t)"
  shows "confirm f rt (\<pi> t) = apsnd \<pi> (confirm f' rt t)"
  by (simp add: confirm_def assms split: prod.splits outcome.splits)

lemma advance_observed:
  assumes "\<And>x t. f x (\<pi> t) = apsnd \<pi> (f' x t)"
  shows "advance ops f v (\<pi> t) = apsnd \<pi> (advance ops f' v t)"
  by (simp add: advance_def Let_def assms split: prod.splits outcome.splits option.splits)

lemma body_observed:
  assumes "\<And>x t. f x (\<pi> t) = apsnd \<pi> (f' x t)"
  shows "body cfg ops f v (\<pi> t) = apsnd \<pi> (body cfg ops f' v t)"
  by (simp add: body_def advance_observed [of f \<pi> f', OF assms] split: option.splits)

lemma iterate_observed:
  assumes "\<And>x t. f x (\<pi> t) = apsnd \<pi> (f' x t)"
  shows "iterate cfg ops f iter v (\<pi> t) = apsnd \<pi> (iterate cfg ops f' iter v t)"
proof (induction k \<equiv> "nat (MaxIteration cfg - iter)" arbitrary: iter v t)
  case 0
  then show ?case by (simp add: iterate_cap)
next
  case (Suc k)
  then have lt: "iter < MaxIteration cfg"
    and k: "k = nat (MaxIteration cfg - (iter + 1))"
    by linarith+
  obtain r t1 where b': "body cfg ops f' v t = (r, t1)"
    by (cases "body cfg ops f' v t")
  then have b: "body cfg ops f v (\<pi> t) = (r, \<pi> t1)"
    by (simp add: body_observed [of f \<pi> f', OF assms])
  show ?case
  proof (cases r)
    case (Continue v1)
    then show ?thesis
      using lt b b' Suc.hyps(1) [OF k, of v1 t1] by (simp add: iterate_pass)
  next
    case Break
    then show ?thesis
      using lt b b' confirm_observed [of f \<pi> f', OF assms] by (simp add: iterate_pass)
  next
    case (Exit x)
    then show ?thesis
      using lt b b' by (simp add: iterate_pass)
  qed
qed

lemma prologue_observed:
  assumes "\<And>x t. f x (\<pi> t) = apsnd \<pi> (f' x t)"
  shows "prologue cfg ops f a b (\<pi> t) = apsnd \<pi> (prologue cfg ops f' a b t)"
  by (simp add: prologue_def Let_def assms confirm_observed [of f \<pi> f', OF assms]
      split: prod.splits outcome.splits option.splits)

lemma Find_observed:
  assumes "\<And>x t. f x (\<pi> t) = apsnd \<pi> (f' x t)"
  shows "Find cfg ops f a b (\<pi> t) = apsnd \<pi> (Find cfg ops f' a b t)"
proof -
  have "Find_body cfg ops f a b (\<pi> t) = apsnd \<pi> (Find_body cfg ops f' a b t)"
    by (simp add: Find_body_def prologue_observed [of f \<pi> f', OF assms]
        iterate_observed [of f \<pi> f', OF assms] split: prod.splits sum.splits)
  then show ?thesis
    by (simp add: Find_def split: prod.splits exit.splits)
qed

lemma Find_counted:
  "Find cfg ops f a b s = apsnd fst (Find cfg ops (counted f) a b (s, n))"
  using Find_observed [of f fst "counted f" cfg ops a b "(s, n)"]
  by (simp add: counted_def split: prod.splits)


subsection \<open>Panics\<close>









subsection \<open>The order of the borders\<close>

lemma prologue_swap:
  assumes "fgt ops a b \<or> fgt ops b a \<or> a = b"
    and "\<not> (fgt ops a b \<and> fgt ops b a)"
  shows "prologue cfg ops f a b s = prologue cfg ops f b a s"
  using assms by (auto simp add: prologue_def)

text \<open>
  Claim C4. For borders \<open>a\<close> and \<open>b\<close> that the comparison orders as it orders real
  numbers (one is less than the other, or they are the same value), \<open>Find(f, a, b)\<close>
  and \<open>Find(f, b, a)\<close> return the same root, the same error and leave the evaluator
  in the same state, because both start the search from the same swapped borders. So
  it is for every pair of real numbers.
\<close>

theorem order_independence:
  "((fgt ops a b \<or> fgt ops b a \<or> a = b) \<and> \<not> (fgt ops a b \<and> fgt ops b a)
     \<longrightarrow> Find cfg ops f a b s = Find cfg ops f b a s)
   \<and> Find cfg' f64_ops f' (Fin x) (Fin y) s' = Find cfg' f64_ops f' (Fin y) (Fin x) s'"
proof -
  have "fgt f64_ops (Fin x) (Fin y) \<or> fgt f64_ops (Fin y) (Fin x) \<or> Fin x = Fin y"
    and "\<not> (fgt f64_ops (Fin x) (Fin y) \<and> fgt f64_ops (Fin y) (Fin x))"
    by (auto simp add: f64_ops_def)
  then have "prologue cfg' f64_ops f' (Fin x) (Fin y) s'
      = prologue cfg' f64_ops f' (Fin y) (Fin x) s'"
    by (rule prologue_swap)
  then show ?thesis
    by (auto simp add: Find_def Find_body_def prologue_swap)
qed

text \<open>The borders of \<open>TestChangeMinMax\<close>, \<open>10\<close> and \<open>-10\<close>, with \<open>2x + 1\<close>.\<close>

theorem order_independence_witness:
  "(fgt f64_ops (Fin 10) (Fin (- 10)) \<or> fgt f64_ops (Fin (- 10)) (Fin 10)
      \<or> Fin 10 = Fin (- 10))
   \<and> \<not> (fgt f64_ops (Fin 10) (Fin (- 10)) \<and> fgt f64_ops (Fin (- 10)) (Fin 10))
   \<and> Find default_config f64_ops
        (plain (\<lambda>x. f64_add (f64_mul (Fin 2) x) (Fin 1)) :: (f64, unit, unit, unit) evaluator)
        (Fin 10) (Fin (- 10)) ()
     = Find default_config f64_ops
        (plain (\<lambda>x. f64_add (f64_mul (Fin 2) x) (Fin 1))) (Fin (- 10)) (Fin 10) ()"
proof -
  have h: "(fgt f64_ops (Fin 10) (Fin (- 10)) \<or> fgt f64_ops (Fin (- 10)) (Fin 10)
      \<or> Fin 10 = Fin (- 10))
    \<and> \<not> (fgt f64_ops (Fin 10) (Fin (- 10)) \<and> fgt f64_ops (Fin (- 10)) (Fin 10))"
    by (simp add: f64_ops_def)
  have "Find default_config f64_ops
        (plain (\<lambda>x. f64_add (f64_mul (Fin 2) x) (Fin 1)) :: (f64, unit, unit, unit) evaluator)
        (Fin 10) (Fin (- 10)) ()
     = Find default_config f64_ops
        (plain (\<lambda>x. f64_add (f64_mul (Fin 2) x) (Fin 1))) (Fin (- 10)) (Fin 10) ()"
    by (rule order_independence [THEN conjunct1, rule_format, OF h])
  with h show ?thesis by blast
qed

subsection \<open>Counting the calls\<close>

lemma counted_confirm:
  "snd (snd (confirm (counted f) rt (s, n))) = Suc n"
  by (simp add: confirm_def counted_def split: prod.splits outcome.splits)

lemma counted_advance:
  "snd (snd (advance ops (counted f) v (s, n))) = Suc n"
  by (simp add: advance_def counted_def Let_def split: prod.splits outcome.splits option.splits)

lemma counted_body:
  "snd (snd (body cfg ops (counted f) v (s, n))) \<le> Suc n"
  by (simp add: body_def counted_advance split: option.splits)

lemma counted_iterate:
  "snd (snd (iterate cfg ops (counted f) iter v st))
     \<le> snd st + nat (MaxIteration cfg - iter) + 1"
proof (induction k \<equiv> "nat (MaxIteration cfg - iter)" arbitrary: iter v st)
  case 0
  then show ?case by (simp add: iterate_cap)
next
  case (Suc k)
  then have lt: "iter < MaxIteration cfg"
    and k: "k = nat (MaxIteration cfg - (iter + 1))"
    by linarith+
  obtain r st1 where b: "body cfg ops (counted f) v st = (r, st1)"
    by (cases "body cfg ops (counted f) v st")
  have le1: "snd st1 \<le> Suc (snd st)"
    using counted_body [of cfg ops f v "fst st" "snd st"] b by simp
  show ?case
  proof (cases r)
    case (Continue v1)
    have "snd (snd (iterate cfg ops (counted f) (iter + 1) v1 st1))
        \<le> snd st1 + nat (MaxIteration cfg - (iter + 1)) + 1"
      by (rule Suc.hyps(1) [OF k])
    then show ?thesis
      using lt b Continue le1 by (simp add: iterate_pass)
  next
    case Break
    with b have "st1 = st" by (simp add: body_Break)
    then show ?thesis
      using lt b Break counted_confirm [of f "xRoot v" "fst st" "snd st"]
      by (simp add: iterate_pass)
  next
    case (Exit x)
    then show ?thesis
      using lt b le1 by (simp add: iterate_pass)
  qed
qed

lemma counted_prologue:
  "prologue cfg ops (counted f) a b (s, n) = (r, st') \<Longrightarrow>
   (case r of Inl x \<Rightarrow> snd st' \<le> n + 4 | Inr v \<Rightarrow> snd st' = n + 3)"
  by (auto simp add: prologue_def counted_def confirm_def Let_def
      split: prod.splits outcome.splits option.splits if_splits)

text \<open>
  Claim C5. One call of \<open>Find\<close> calls the evaluator at most
  \<open>3 + MaxIteration + 1\<close> times, for a cap \<open>MaxIteration\<close> that is not negative.
  The evaluator counts its own calls from zero, which does not change what \<open>Find\<close>
  returns.
\<close>

theorem bounded_work:
  assumes "0 \<le> MaxIteration cfg"
  shows "Find cfg ops f minX maxX s = apsnd fst (Find cfg ops (counted f) minX maxX (s, 0))
         \<and> int (snd (snd (Find cfg ops (counted f) minX maxX (s, 0))))
             \<le> 3 + MaxIteration cfg + 1"
proof
  show "Find cfg ops f minX maxX s = apsnd fst (Find cfg ops (counted f) minX maxX (s, 0))"
    by (rule Find_counted)
next
  obtain r st' where p: "prologue cfg ops (counted f) minX maxX (s, 0) = (r, st')"
    by (cases "prologue cfg ops (counted f) minX maxX (s, 0)")
  show "int (snd (snd (Find cfg ops (counted f) minX maxX (s, 0))))
          \<le> 3 + MaxIteration cfg + 1"
  proof (cases r)
    case (Inl x)
    with counted_prologue [OF p] have "snd st' \<le> 4" by simp
    moreover have "snd (Find cfg ops (counted f) minX maxX (s, 0)) = st'"
      using p Inl by (simp add: Find_def Find_body_def split: exit.splits)
    ultimately show ?thesis using assms by simp
  next
    case (Inr v)
    with counted_prologue [OF p] have "snd st' = 3" by simp
    moreover have "snd (Find cfg ops (counted f) minX maxX (s, 0))
        = snd (iterate cfg ops (counted f) 0 v st')"
      using p Inr by (simp add: Find_def Find_body_def split: exit.splits prod.splits)
    moreover have "snd (snd (iterate cfg ops (counted f) 0 v st'))
        \<le> snd st' + nat (MaxIteration cfg - 0) + 1"
      by (rule counted_iterate)
    ultimately show ?thesis using assms by simp
  qed
qed

text \<open>
  The evaluator \<open>x - 1/4\<close> over \<open>[0, 1]\<close> with the initial configuration: \<open>26\<close>
  calls, below the bound \<open>504\<close>.
\<close>

theorem bounded_work_witness:
  "0 \<le> MaxIteration default_config
   \<and> snd (snd (Find default_config f64_ops
        (counted (plain (\<lambda>x. f64_sub x (Fin (1 / 4))) :: (f64, unit, unit, unit) evaluator))
        (Fin 0) (Fin 1) ((), 0))) = 26
   \<and> int (snd (snd (Find default_config f64_ops
        (counted (plain (\<lambda>x. f64_sub x (Fin (1 / 4))) :: (f64, unit, unit, unit) evaluator))
        (Fin 0) (Fin 1) ((), 0))))
      \<le> 3 + MaxIteration default_config + 1"
proof -
  have h: "0 \<le> MaxIteration default_config"
    by (simp add: default_config_def)
  have c: "snd (snd (Find default_config f64_ops
        (counted (plain (\<lambda>x. f64_sub x (Fin (1 / 4))) :: (f64, unit, unit, unit) evaluator))
        (Fin 0) (Fin 1) ((), 0))) = 26"
    by (simp add: f64_run counted_def plain_def)
  have "int (snd (snd (Find default_config f64_ops
        (counted (plain (\<lambda>x. f64_sub x (Fin (1 / 4))) :: (f64, unit, unit, unit) evaluator))
        (Fin 0) (Fin 1) ((), 0))))
      \<le> 3 + MaxIteration default_config + 1"
    by (rule bounded_work [OF h, THEN conjunct2])
  with h c show ?thesis by blast
qed

subsection \<open>The returned root\<close>


















subsection \<open>The samples\<close>

text \<open>
  The left and the middle sample do pair an abscissa with the value of the evaluator
  there, at the head of every pass.
\<close>

lemma paired_body:
  assumes "g (xLeft v) = Returns (yLeft v) None \<and> g (xRoot v) = Returns (yRoot v) None"
    and "body cfg ops (stateless g) v s = (Continue v', s')"
  shows "g (xLeft v') = Returns (yLeft v') None \<and> g (xRoot v') = Returns (yRoot v') None"
  using assms
  by (auto simp add: body_def bracket_def advance_def stateless_def Let_def
      split: if_splits option.splits outcome.splits)

lemma paired_passes:
  "passes cfg ops (stateless g) n v s = Some (v', s') \<Longrightarrow>
   g (xLeft v) = Returns (yLeft v) None \<and> g (xRoot v) = Returns (yRoot v) None \<Longrightarrow>
   g (xLeft v') = Returns (yLeft v') None \<and> g (xRoot v') = Returns (yRoot v') None"
proof (induction n arbitrary: v s)
  case 0
  then show ?case by simp
next
  case (Suc n)
  from Suc.prems(1) obtain v1 s1
    where b: "body cfg ops (stateless g) v s = (Continue v1, s1)"
      and p: "passes cfg ops (stateless g) n v1 s1 = Some (v', s')"
    by (auto split: prod.splits pass.splits)
  from paired_body [OF Suc.prems(2) b] show ?case
    by (rule Suc.IH [OF p])
qed

lemma left_and_middle_samples:
  assumes "at_iteration cfg ops (stateless g) a b s n = Some (v, s')"
  shows "g (xLeft v) = Returns (yLeft v) None \<and> g (xRoot v) = Returns (yRoot v) None"
proof -
  from assms obtain v0 s1
    where pr: "prologue cfg ops (stateless g) a b s = (Inr v0, s1)"
      and ps: "passes cfg ops (stateless g) n v0 s1 = Some (v, s')"
    by (auto simp add: at_iteration_def split: prod.splits sum.splits)
  from pr have "g (xLeft v0) = Returns (yLeft v0) None \<and> g (xRoot v0) = Returns (yRoot v0) None"
    by (auto simp add: prologue_def stateless_def confirm_def Let_def first_error_None
        split: outcome.splits option.splits if_splits)
  with ps show ?thesis by (rule paired_passes)
qed

text \<open>
  Claim C2 fails on the code. When the right half is discarded the source assigns
  \<open>xRigth, yRigth = xRoot, yRigth\<close>: \<open>yRigth\<close> keeps the value at the old right
  endpoint. For \<open>(x - 3/8)(x - 3/4)\<close> over \<open>[0, 1]\<close> the second pass starts with
  \<open>xRigth = 1/2\<close> and \<open>yRigth = 5/32\<close>, the value at \<open>1\<close>, while the value at \<open>1/2\<close>
  is \<open>-1/32\<close>; with the stale sign the next pass finds no sign change and \<open>Find\<close>
  reports \<open>No root\<close>, although the root \<open>3/8\<close> lies between \<open>1/4\<close> and \<open>1/2\<close>.
\<close>

theorem stale_right_sample:
  "at_iteration default_config f64_ops
       (plain quadratic :: (f64, unit, unit, unit) evaluator) (Fin 0) (Fin 1) () 1
     = Some (\<lparr>xLeft = Fin 0, xRigth = Fin (1 / 2), xRoot = Fin (1 / 4),
              yLeft = Fin (9 / 32), yRoot = Fin (1 / 16), yRigth = Fin (5 / 32)\<rparr>, ())
   \<and> quadratic (Fin (1 / 2)) = Fin (- 1 / 32)
   \<and> quadratic (Fin 1) = Fin (5 / 32)
   \<and> Find default_config f64_ops
       (plain quadratic :: (f64, unit, unit, unit) evaluator) (Fin 0) (Fin 1) ()
     = ((Fin 0,
         Some (ErrorFind InternalErr (NoRoot (Fin (9 / 32)) (Fin (1 / 16)) (Fin (5 / 32))))),
        ())"
  by (simp add: f64_run plain_def quadratic_def)

end
